theory Spec2Isabelle
  imports Main "HOL-Library.AList" "HOL-Library.Char_ord" "HOL-Library.List_Lexorder"
begin

section \<open>JavaScript values as the handlers of server.js see them\<close>

text \<open>
  A request body, an upstream payload and a response body are JSON values, or the value
  \<open>undefined\<close> of a property that is not there. A number is held as its canonical
  rendering (what \<open>String(n)\<close> returns): the program never calculates with the numbers
  of a body or payload, it only tests them for truthiness, compares them with
  \<open>undefined\<close> and writes them into strings, and the rendering decides all three
  (\<open>0\<close> and \<open>-0\<close> both render as \<open>0\<close>). Strings are byte lists in UTF-8.
  An object is the list of its own properties in insertion order.
\<close>

datatype json =
    JUndefined
  | JNull
  | JBool bool
  | JNum string
  | JStr string
  | JArr "json list"
  | JObj "(string \<times> json) list"

text \<open>
  What a \<open>catch\<close> clause of server.js can receive: the rejection of \<open>axios.get\<close>,
  which carries the upstream response (status and body) when there was one, or an
  exception of the language itself.
\<close>

datatype error =
    AxiosError "(nat \<times> json) option"
  | TypeError
  | SyntaxError

text \<open>Truthiness, as tested by \<open>if (x)\<close>, \<open>!x\<close>, \<open>x && y\<close> and \<open>x || y\<close>.\<close>

fun truthy :: "json \<Rightarrow> bool" where
  "truthy JUndefined = False"
| "truthy JNull = False"
| "truthy (JBool b) = b"
| "truthy (JNum s) = (s \<noteq> ''0'' \<and> s \<noteq> ''NaN'')"
| "truthy (JStr s) = (s \<noteq> [])"
| "truthy (JArr xs) = True"
| "truthy (JObj kvs) = True"

text \<open>\<open>a || b\<close> on values.\<close>

definition orElse :: "json \<Rightarrow> json \<Rightarrow> json" where
  "orElse a b = (if truthy a then a else b)"

text \<open>
  \<open>ToString\<close>, as applied by a template literal, by \<open>+\<close> on a string and by
  \<open>encodeURIComponent\<close>. An array is joined with commas, \<open>null\<close> and \<open>undefined\<close>
  elements giving the empty string. An object parsed from JSON has no callable property
  of its own, so it renders through \<open>Object.prototype.toString\<close> unless an own
  property named \<open>toString\<close> hides that method, in which case the conversion throws.
\<close>

fun toStr :: "json \<Rightarrow> error + string"
  and elemStr :: "json \<Rightarrow> error + string"
  and joinElems :: "json list \<Rightarrow> error + string" where
  "toStr JUndefined = Inr ''undefined''"
| "toStr JNull = Inr ''null''"
| "toStr (JBool b) = Inr (if b then ''true'' else ''false'')"
| "toStr (JNum s) = Inr s"
| "toStr (JStr s) = Inr s"
| "toStr (JArr xs) = joinElems xs"
| "toStr (JObj kvs) =
     (if map_of kvs ''toString'' \<noteq> None then Inl TypeError else Inr ''[object Object]'')"
| "elemStr JUndefined = Inr []"
| "elemStr JNull = Inr []"
| "elemStr (JBool b) = toStr (JBool b)"
| "elemStr (JNum s) = toStr (JNum s)"
| "elemStr (JStr s) = toStr (JStr s)"
| "elemStr (JArr xs) = toStr (JArr xs)"
| "elemStr (JObj kvs) = toStr (JObj kvs)"
| "joinElems [] = Inr []"
| "joinElems [x] = elemStr x"
| "joinElems (x # y # ys) =
     (case elemStr x of
        Inl e \<Rightarrow> Inl e
      | Inr s \<Rightarrow> (case joinElems (y # ys) of
                   Inl e \<Rightarrow> Inl e
                 | Inr t \<Rightarrow> Inr (s @ '','' @ t)))"

text \<open>
  Reading a property \<open>v.k\<close>, for the names that server.js reads by this function
  (\<open>coord\<close>, \<open>lat\<close>, \<open>lon\<close>, \<open>timezone\<close>, \<open>message\<close>, \<open>name\<close>,
  \<open>state\<close>, \<open>country\<close>, \<open>fullName\<close>, \<open>current\<close>, \<open>main\<close>, \<open>temp\<close>,
  \<open>weather\<close>; the length and the first element of an array or string are read by
  \<open>lengthPositive\<close> and \<open>firstElem\<close> below). No prototype of a JSON value defines
  one of them: the result is a \<open>TypeError\<close> on \<open>null\<close> and \<open>undefined\<close>, the own
  property of an object, and \<open>undefined\<close> everywhere else.
\<close>

fun getProp :: "json \<Rightarrow> string \<Rightarrow> error + json" where
  "getProp JUndefined k = Inl TypeError"
| "getProp JNull k = Inl TypeError"
| "getProp (JObj kvs) k = Inr (case map_of kvs k of None \<Rightarrow> JUndefined | Some v \<Rightarrow> v)"
| "getProp v k = Inr JUndefined"

text \<open>
  Writing a property \<open>v.k = x\<close> (server.js is not in strict mode): an object gets or
  replaces its own property; the write is dropped on a primitive; on an array it adds a
  named property, which is no part of the array's JSON form, the only form in which the
  value leaves the handler. \<open>null\<close> and \<open>undefined\<close> throw.
\<close>

fun setProp :: "json \<Rightarrow> string \<Rightarrow> json \<Rightarrow> error + json" where
  "setProp JUndefined k x = Inl TypeError"
| "setProp JNull k x = Inl TypeError"
| "setProp (JObj kvs) k x = Inr (JObj (AList.update k x kvs))"
| "setProp v k x = Inr v"

text \<open>Sequencing of steps that may throw.\<close>

fun bindE :: "error + 'a \<Rightarrow> ('a \<Rightarrow> error + 'b) \<Rightarrow> error + 'b" where
  "bindE (Inl e) f = Inl e"
| "bindE (Inr x) f = f x"

section \<open>The environment of the process\<close>

text \<open>
  What server.js reads from outside itself. \<open>httpGet\<close> is \<open>axios.get\<close>: \<open>Inr\<close> the
  body of a 2xx response, \<open>Inl\<close> a rejection, with status and body of the upstream
  response when there was one. When both requests of a \<open>Promise.all\<close> are rejected, the
  one rejected first is thrown; \<open>forecastRejectsFirst\<close> says which. \<open>parseDate\<close> is
  the time value of \<open>new Date(v)\<close> in milliseconds, \<open>None\<close> for an invalid date, and
  \<open>now\<close> that of \<open>new Date()\<close>. \<open>parseFloat\<close> and \<open>strPositive\<close> (whether
  the number a string converts to is greater than 0) stand for the language's conversions
  from strings to numbers. The remaining fields are the SQLite driver: whether a
  statement fails, how a bound value is stored in a TEXT column (\<open>None\<close> is NULL), the
  value of CURRENT_TIMESTAMP, whether the text of a route parameter equals a row id, and
  the two directions of \<open>JSON\<close>.
\<close>

record env =
  apiKey :: "string option"
  httpGet :: "string \<Rightarrow> (nat \<times> json) option + json"
  forecastRejectsFirst :: bool
  now :: int
  parseDate :: "json \<Rightarrow> int option"
  parseFloat :: "string \<Rightarrow> json"
  strPositive :: "string \<Rightarrow> bool"
  storeFails :: bool
  bindText :: "json \<Rightarrow> string option"
  timestamp :: string
  idMatches :: "string \<Rightarrow> int \<Rightarrow> bool"
  JSONstringify :: "json \<Rightarrow> string"
  JSONparse :: "string \<Rightarrow> error + json"

text \<open>\<open>${apiKey}\<close> inside a template literal.\<close>

definition keyStr :: "env \<Rightarrow> string" where
  "keyStr E = (case apiKey E of None \<Rightarrow> ''undefined'' | Some k \<Rightarrow> k)"

subsection \<open>encodeURIComponent\<close>

text \<open>
  Every byte of the UTF-8 form is escaped as \<open>%XX\<close> except letters, digits and the
  marks \<open>- _ . ! ~ * ' ( )\<close>.
\<close>

definition uriUnreserved :: "char \<Rightarrow> bool" where
  "uriUnreserved c =
     (let n = (of_char c :: nat)
      in (65 \<le> n \<and> n \<le> 90) \<or> (97 \<le> n \<and> n \<le> 122) \<or> (48 \<le> n \<and> n \<le> 57)
         \<or> c \<in> set (''-_.!~*()'' @ [CHR 0x27]))"

definition hexDigit :: "nat \<Rightarrow> char" where
  "hexDigit n = ''0123456789ABCDEF'' ! (n mod 16)"

definition pctEncode :: "char \<Rightarrow> string" where
  "pctEncode c =
     (if uriUnreserved c then [c]
      else [CHR ''%'', hexDigit ((of_char c :: nat) div 16), hexDigit ((of_char c :: nat) mod 16)])"

definition encodeURIComponent :: "json \<Rightarrow> error + string" where
  "encodeURIComponent v = bindE (toStr v) (\<lambda>s. Inr (concat (map pctEncode s)))"

section \<open>validateDateRange\<close>

datatype validation = Valid | Invalid string

text \<open>
  \<open>new Date(v)\<close> converts an object or array to a primitive first, which throws where
  \<open>toStr\<close> does.
\<close>

definition newDate :: "env \<Rightarrow> json \<Rightarrow> error + int option" where
  "newDate E v = bindE (toStr v) (\<lambda>_. Inr (parseDate E v))"

definition validateDateRange :: "env \<Rightarrow> json \<Rightarrow> json \<Rightarrow> error + validation" where
  "validateDateRange E dateFrom dateTo =
     (if \<not> truthy dateFrom \<or> \<not> truthy dateTo then Inr (Invalid ''Both dates are required'')
      else
        bindE (newDate E dateFrom) (\<lambda>from.
        bindE (newDate E dateTo) (\<lambda>to.
          (case (from, to) of
             (Some f, Some t) \<Rightarrow>
               if f > t then Inr (Invalid ''Start date must be before end date'')
               else if t > now E then Inr (Invalid ''End date cannot be in the future'')
               else Inr Valid
           | _ \<Rightarrow> Inr (Invalid ''Invalid date format'')))))"

section \<open>The geocoding resolvers\<close>

text \<open>
  \<open>v > 0\<close>, \<open>v.length > 0\<close> and \<open>v[0]\<close>, as the resolvers apply them to a payload.
  An array and a string have a length, and the first element of a string is its first
  character; an object answers with its own properties \<open>length\<close> and \<open>0\<close>.
\<close>

fun gtZero :: "env \<Rightarrow> json \<Rightarrow> error + bool" where
  "gtZero E JUndefined = Inr False"
| "gtZero E JNull = Inr False"
| "gtZero E (JBool b) = Inr b"
| "gtZero E (JNum s) = Inr (s \<noteq> ''0'' \<and> s \<noteq> ''NaN'' \<and> take 1 s \<noteq> ''-'')"
| "gtZero E (JStr s) = Inr (strPositive E s)"
| "gtZero E v = bindE (toStr v) (\<lambda>s. Inr (strPositive E s))"

fun lengthPositive :: "env \<Rightarrow> json \<Rightarrow> error + bool" where
  "lengthPositive E (JArr xs) = Inr (xs \<noteq> [])"
| "lengthPositive E (JStr s) = Inr (s \<noteq> [])"
| "lengthPositive E v = bindE (getProp v ''length'') (gtZero E)"

fun firstElem :: "json \<Rightarrow> error + json" where
  "firstElem (JArr xs) = Inr (case xs of [] \<Rightarrow> JUndefined | x # _ \<Rightarrow> x)"
| "firstElem (JStr s) = Inr (if s = [] then JUndefined else JStr (take 1 s))"
| "firstElem v = getProp v ''0''"

text \<open>
  The template
  \<open>`${place.name}${place.state ? ", " + place.state : ""}, ${place.country}`\<close>.
\<close>

definition fullName :: "json \<Rightarrow> error + string" where
  "fullName place =
     bindE (getProp place ''name'') (\<lambda>name.
     bindE (toStr name) (\<lambda>n.
     bindE (getProp place ''state'') (\<lambda>state.
     bindE (if truthy state then bindE (toStr state) (\<lambda>s. Inr ('', '' @ s)) else Inr [])
       (\<lambda>st.
     bindE (getProp place ''country'') (\<lambda>country.
     bindE (toStr country) (\<lambda>c.
       Inr (n @ st @ '', '' @ c)))))))"

text \<open>
  The body of the \<open>try\<close> block after the request: the object built from the first
  result, or \<open>null\<close> when there is none. \<open>la\<close> and \<open>lo\<close> compute the fields
  \<open>lat\<close> and \<open>lon\<close> from the place.
\<close>

definition placeInfo ::
  "env \<Rightarrow> (json \<Rightarrow> error + json) \<Rightarrow> (json \<Rightarrow> error + json) \<Rightarrow> json \<Rightarrow> error + json" where
  "placeInfo E la lo data =
     (if \<not> truthy data then Inr JNull
      else
        bindE (lengthPositive E data) (\<lambda>pos.
          if \<not> pos then Inr JNull
          else
            bindE (firstElem data) (\<lambda>place.
            bindE (la place) (\<lambda>lat'.
            bindE (lo place) (\<lambda>lon'.
            bindE (getProp place ''name'') (\<lambda>name.
            bindE (getProp place ''country'') (\<lambda>country.
            bindE (getProp place ''state'') (\<lambda>state.
            bindE (fullName place) (\<lambda>full.
              Inr (JObj [(''lat'', lat'), (''lon'', lon'), (''name'', name),
                         (''country'', country), (''state'', orElse state JNull),
                         (''fullName'', JStr full)]))))))))))"

text \<open>
  A resolver returns its result together with the upstream requests it issued. Whatever
  is thrown inside its \<open>try\<close> block, the \<open>catch\<close> clause returns \<open>null\<close>.
\<close>

definition geocodeUrl :: "env \<Rightarrow> string \<Rightarrow> string" where
  "geocodeUrl E q =
     ''https://api.openweathermap.org/geo/1.0/direct?q='' @ q @ ''&limit=1&appid='' @ keyStr E"

definition getCoordinatesFromLocation :: "env \<Rightarrow> json \<Rightarrow> json \<times> string list" where
  "getCoordinatesFromLocation E location =
     (case encodeURIComponent location of
        Inl e \<Rightarrow> (JNull, [])
      | Inr q \<Rightarrow>
          (case httpGet E (geocodeUrl E q) of
             Inl r \<Rightarrow> (JNull, [geocodeUrl E q])
           | Inr data \<Rightarrow>
               (case placeInfo E (\<lambda>p. getProp p ''lat'') (\<lambda>p. getProp p ''lon'') data of
                  Inl e \<Rightarrow> (JNull, [geocodeUrl E q])
                | Inr info \<Rightarrow> (info, [geocodeUrl E q]))))"

definition reverseUrl :: "env \<Rightarrow> string \<Rightarrow> string \<Rightarrow> string" where
  "reverseUrl E la lo =
     ''https://api.openweathermap.org/geo/1.0/reverse?lat='' @ la @ ''&lon='' @ lo
       @ ''&limit=1&appid='' @ keyStr E"

definition getLocationFromCoordinates :: "env \<Rightarrow> json \<Rightarrow> json \<Rightarrow> json \<times> string list" where
  "getLocationFromCoordinates E lat lon =
     (case bindE (toStr lat) (\<lambda>la. bindE (toStr lon) (\<lambda>lo. Inr (reverseUrl E la lo))) of
        Inl e \<Rightarrow> (JNull, [])
      | Inr url \<Rightarrow>
          (case httpGet E url of
             Inl r \<Rightarrow> (JNull, [url])
           | Inr data \<Rightarrow>
               (case placeInfo E
                       (\<lambda>p. bindE (toStr lat) (\<lambda>s. Inr (parseFloat E s)))
                       (\<lambda>p. bindE (toStr lon) (\<lambda>s. Inr (parseFloat E s))) data of
                  Inl e \<Rightarrow> (JNull, [url])
                | Inr info \<Rightarrow> (info, [url]))))"

section \<open>buildWeatherUrl\<close>

record urls =
  current :: string
  forecast :: string

definition weatherBase :: string where
  "weatherBase = ''https://api.openweathermap.org/data/2.5/weather?''"

definition forecastBase :: string where
  "forecastBase = ''https://api.openweathermap.org/data/2.5/forecast?''"

definition urlTail :: "env \<Rightarrow> string" where
  "urlTail E = ''&appid='' @ keyStr E @ ''&units=metric''"

definition byCoordinates :: "env \<Rightarrow> string \<Rightarrow> string \<Rightarrow> urls" where
  "byCoordinates E la lo =
     \<lparr> current = weatherBase @ ''lat='' @ la @ ''&lon='' @ lo @ urlTail E,
       forecast = forecastBase @ ''lat='' @ la @ ''&lon='' @ lo @ urlTail E \<rparr>"

definition byZip :: "env \<Rightarrow> string \<Rightarrow> urls" where
  "byZip E z =
     \<lparr> current = weatherBase @ ''zip='' @ z @ urlTail E,
       forecast = forecastBase @ ''zip='' @ z @ urlTail E \<rparr>"

definition byName :: "env \<Rightarrow> string \<Rightarrow> urls" where
  "byName E q =
     \<lparr> current = weatherBase @ ''q='' @ q @ urlTail E,
       forecast = forecastBase @ ''q='' @ q @ urlTail E \<rparr>"

definition buildWeatherUrl :: "env \<Rightarrow> json \<Rightarrow> json \<Rightarrow> json \<Rightarrow> json \<Rightarrow> error + urls" where
  "buildWeatherUrl E location lat lon type =
     (if truthy lat \<and> truthy lon then
        bindE (toStr lat) (\<lambda>la. bindE (toStr lon) (\<lambda>lo. Inr (byCoordinates E la lo)))
      else if type = JStr ''zip'' then
        bindE (toStr location) (\<lambda>z. Inr (byZip E z))
      else
        bindE (encodeURIComponent location) (\<lambda>q. Inr (byName E q)))"

section \<open>Requests, responses and the store\<close>

text \<open>
  The fields a handler destructures from \<open>req.body\<close>; a field the body does not have
  is \<open>JUndefined\<close>.
\<close>

record body =
  location :: json
  lat :: json
  lon :: json
  type :: json
  dateFrom :: json
  dateTo :: json

text \<open>
  A response is \<open>res.status(n).json(v)\<close> (\<open>res.json(v)\<close> has status 200) or the CSV
  attachment of the export.
\<close>

datatype response = Json nat json | Csv string

definition errorBody :: "json \<Rightarrow> json" where
  "errorBody m = JObj [(''error'', m)]"

text \<open>The table \<open>weather_queries\<close>; \<open>nextId\<close> is the AUTOINCREMENT counter.\<close>

record row =
  row_id :: int
  row_location :: string
  date_from :: "string option"
  date_to :: "string option"
  weather_data :: string
  created_at :: string

record db =
  rows :: "row list"
  nextId :: int

text \<open>
  What a handler leaves behind: its response, the store, and the upstream requests it
  issued, oldest first.
\<close>

record outcome =
  resp :: response
  store :: db
  calls :: "string list"

text \<open>
  \<open>INSERT INTO weather_queries (location, date_from, date_to, weather_data)\<close>. The
  column \<open>location\<close> is NOT NULL: the statement fails on a NULL there. The handler
  passes no callback, so a failed statement leaves no trace in the response.
\<close>

definition dbInsert :: "env \<Rightarrow> db \<Rightarrow> json \<Rightarrow> json \<Rightarrow> json \<Rightarrow> string \<Rightarrow> db" where
  "dbInsert E d loc dfrom dto wd =
     (if storeFails E then d
      else case bindText E loc of
             None \<Rightarrow> d
           | Some l \<Rightarrow>
               \<lparr> rows = rows d @ [\<lparr> row_id = nextId d, row_location = l,
                                    date_from = bindText E dfrom, date_to = bindText E dto,
                                    weather_data = wd, created_at = timestamp E \<rparr>],
                 nextId = nextId d + 1 \<rparr>)"

text \<open>
  \<open>UPDATE weather_queries SET location = ?, date_from = ?, date_to = ?,
  weather_data = ? WHERE id = ?\<close>: \<open>None\<close> when the statement fails, else
  \<open>this.changes\<close> (the number of rows the statement changed) and the store after it.
  The NOT NULL constraint on \<open>location\<close> is checked on the rows that are written.
\<close>

definition setRow :: "string \<Rightarrow> string option \<Rightarrow> string option \<Rightarrow> string \<Rightarrow> row \<Rightarrow> row" where
  "setRow l dfrom dto wd r =
     r\<lparr> row_location := l, date_from := dfrom, date_to := dto, weather_data := wd \<rparr>"

definition dbUpdate ::
  "env \<Rightarrow> db \<Rightarrow> string \<Rightarrow> json \<Rightarrow> json \<Rightarrow> json \<Rightarrow> string \<Rightarrow> (nat \<times> db) option" where
  "dbUpdate E d ident loc dfrom dto wd =
     (let hit = (\<lambda>r. idMatches E ident (row_id r)) in
      if storeFails E then None
      else case bindText E loc of
             None \<Rightarrow> (if filter hit (rows d) = [] then Some (0, d) else None)
           | Some l \<Rightarrow>
               Some (length (filter hit (rows d)),
                     d\<lparr> rows := map (\<lambda>r. if hit r
                                          then setRow l (bindText E dfrom) (bindText E dto) wd r
                                          else r) (rows d) \<rparr>))"


section \<open>POST /api/weather\<close>

definition presenceCheck :: "body \<Rightarrow> response option" where
  "presenceCheck b =
     (if \<not> truthy (location b) \<and> (lat b = JUndefined \<or> lon b = JUndefined)
      then Some (Json 400 (errorBody (JStr ''Location or coordinates required.'')))
      else None)"

text \<open>
  The line shared by POST and PUT:
  \<open>if (dateFrom && dateTo) { validation = validateDateRange(dateFrom, dateTo);
  if (!validation.valid) return res.status(400).json({ error: validation.error }); }\<close>.
  \<open>Inr None\<close> lets the handler go on.
\<close>

definition dateCheck :: "env \<Rightarrow> json \<Rightarrow> json \<Rightarrow> error + response option" where
  "dateCheck E dfrom dto =
     (if truthy dfrom \<and> truthy dto then
        bindE (validateDateRange E dfrom dto) (\<lambda>v.
          case v of
            Valid \<Rightarrow> Inr None
          | Invalid msg \<Rightarrow> Inr (Some (Json 400 (errorBody (JStr msg)))))
      else Inr None)"

text \<open>
  Lines 199 and 200: which resolver runs, if any, and what it returns
  (\<open>enhancedLocationInfo\<close> starts as \<open>null\<close>).
\<close>

datatype resolver = Forward | Reverse | Skip

definition dispatch :: "body \<Rightarrow> resolver" where
  "dispatch b =
     (if truthy (location b) \<and> \<not> truthy (lat b) \<and> \<not> truthy (lon b) then Forward
      else if truthy (lat b) \<and> truthy (lon b) \<and> \<not> truthy (location b) then Reverse
      else Skip)"

definition enrich :: "env \<Rightarrow> body \<Rightarrow> json \<times> string list" where
  "enrich E b =
     (case dispatch b of
        Forward \<Rightarrow> getCoordinatesFromLocation E (location b)
      | Reverse \<Rightarrow> getLocationFromCoordinates E (lat b) (lon b)
      | Skip \<Rightarrow> (JNull, []))"

text \<open>
  \<open>Promise.all([axios.get(urls.current), axios.get(urls.forecast)])\<close>: both requests
  are issued; the first rejection is thrown.
\<close>

definition promiseAll :: "env \<Rightarrow> urls \<Rightarrow> error + json \<times> json" where
  "promiseAll E u =
     (case (httpGet E (current u), httpGet E (forecast u)) of
        (Inr c, Inr f) \<Rightarrow> Inr (c, f)
      | (Inl r, Inr f) \<Rightarrow> Inl (AxiosError r)
      | (Inr c, Inl r) \<Rightarrow> Inl (AxiosError r)
      | (Inl r1, Inl r2) \<Rightarrow> Inl (AxiosError (if forecastRejectsFirst E then r2 else r1)))"

text \<open>\<open>location || `${lat},${lon}`\<close>.\<close>

definition searched :: "body \<Rightarrow> error + json" where
  "searched b =
     (if truthy (location b) then Inr (location b)
      else bindE (toStr (lat b)) (\<lambda>la. bindE (toStr (lon b)) (\<lambda>lo.
             Inr (JStr (la @ '','' @ lo)))))"

text \<open>Lines 204 to 206, on the current-conditions payload \<open>c\<close>.\<close>

definition addCoordinates :: "json \<Rightarrow> error + json" where
  "addCoordinates c =
     bindE (getProp c ''coord'') (\<lambda>coord.
       if truthy coord then
         bindE (getProp coord ''lat'') (\<lambda>la.
         bindE (getProp coord ''lon'') (\<lambda>lo.
           setProp c ''coordinates'' (JObj [(''lat'', la), (''lon'', lo)])))
       else Inr c)"

definition addEnhanced :: "json \<Rightarrow> json \<Rightarrow> error + json" where
  "addEnhanced info c =
     (if truthy info then
        bindE (setProp c ''enhancedLocation'' info) (\<lambda>c'.
        bindE (getProp info ''fullName'') (\<lambda>full.
          setProp c' ''displayName'' full))
      else Inr c)"

definition addTimezone :: "json \<Rightarrow> error + json" where
  "addTimezone c =
     bindE (getProp c ''timezone'') (\<lambda>tz.
       if truthy tz then setProp c ''timezoneOffset'' tz else Inr c)"

definition augment :: "json \<Rightarrow> json \<Rightarrow> error + json" where
  "augment info c = bindE (addCoordinates c) (\<lambda>c1. bindE (addEnhanced info c1) addTimezone)"

definition weatherRecord :: "json \<Rightarrow> json \<Rightarrow> json \<Rightarrow> json" where
  "weatherRecord c f s = JObj [(''current'', c), (''forecast'', f), (''searchedLocation'', s)]"

text \<open>The \<open>catch\<close> clause of the handler.\<close>

definition genericFailure :: response where
  "genericFailure = Json 500 (errorBody (JStr ''Failed to fetch weather data.''))"

fun catchPost :: "error \<Rightarrow> response" where
  "catchPost (AxiosError (Some (status, data))) =
     (if truthy data then
        (case getProp data ''message'' of
           Inr m \<Rightarrow> Json status (errorBody m)
         | Inl e \<Rightarrow> genericFailure)
      else genericFailure)"
| "catchPost e = genericFailure"

text \<open>Lines 198 to 208: enrichment, the two upstream requests, the record, the insert.\<close>

definition postFetch :: "env \<Rightarrow> db \<Rightarrow> body \<Rightarrow> outcome" where
  "postFetch E d b =
     (let (info, geo) = enrich E b in
      case buildWeatherUrl E (location b) (lat b) (lon b) (type b) of
        Inl e \<Rightarrow> \<lparr> resp = catchPost e, store = d, calls = geo \<rparr>
      | Inr u \<Rightarrow>
          (case bindE (promiseAll E u) (\<lambda>(c, f).
                  bindE (searched b) (\<lambda>s.
                  bindE (augment info c) (\<lambda>c'. Inr (weatherRecord c' f s, s)))) of
             Inl e \<Rightarrow> \<lparr> resp = catchPost e, store = d, calls = geo @ [current u, forecast u] \<rparr>
           | Inr (wd, s) \<Rightarrow>
               \<lparr> resp = Json 200 wd,
                 store = dbInsert E d s (orElse (dateFrom b) JNull) (orElse (dateTo b) JNull)
                           (JSONstringify E wd),
                 calls = geo @ [current u, forecast u] \<rparr>))"

definition postWeather :: "env \<Rightarrow> db \<Rightarrow> body \<Rightarrow> outcome" where
  "postWeather E d b =
     (case presenceCheck b of
        Some r \<Rightarrow> \<lparr> resp = r, store = d, calls = [] \<rparr>
      | None \<Rightarrow>
          (case dateCheck E (dateFrom b) (dateTo b) of
             Inl e \<Rightarrow> \<lparr> resp = catchPost e, store = d, calls = [] \<rparr>
           | Inr (Some r) \<Rightarrow> \<lparr> resp = r, store = d, calls = [] \<rparr>
           | Inr None \<Rightarrow> postFetch E d b))"

section \<open>PUT /api/queries/:id\<close>

definition updateFailure :: response where
  "updateFailure = Json 500 (errorBody (JStr ''Failed to update weather data''))"

definition putQuery :: "env \<Rightarrow> db \<Rightarrow> string \<Rightarrow> body \<Rightarrow> outcome" where
  "putQuery E d ident b =
     (if \<not> truthy (location b)
      then \<lparr> resp = Json 400 (errorBody (JStr ''Location is required'')), store = d, calls = [] \<rparr>
      else
        case dateCheck E (dateFrom b) (dateTo b) of
          Inl e \<Rightarrow> \<lparr> resp = updateFailure, store = d, calls = [] \<rparr>
        | Inr (Some r) \<Rightarrow> \<lparr> resp = r, store = d, calls = [] \<rparr>
        | Inr None \<Rightarrow>
            (case buildWeatherUrl E (location b) JUndefined JUndefined JUndefined of
               Inl e \<Rightarrow> \<lparr> resp = updateFailure, store = d, calls = [] \<rparr>
             | Inr u \<Rightarrow>
                 (case promiseAll E u of
                    Inl e \<Rightarrow> \<lparr> resp = updateFailure, store = d, calls = [current u, forecast u] \<rparr>
                  | Inr (c, f) \<Rightarrow>
                      (let wd = JObj [(''current'', c), (''forecast'', f)] in
                       case dbUpdate E d ident (location b) (orElse (dateFrom b) JNull)
                              (orElse (dateTo b) JNull) (JSONstringify E wd) of
                         None \<Rightarrow>
                           \<lparr> resp = Json 500 (errorBody (JStr ''Failed to update query'')),
                             store = d, calls = [current u, forecast u] \<rparr>
                       | Some (changes, d') \<Rightarrow>
                           \<lparr> resp = (if changes = 0
                                     then Json 404 (errorBody (JStr ''Query not found''))
                                     else Json 200 (JObj [(''message'', JStr ''Query updated successfully''),
                                                          (''weatherData'', wd)])),
                             store = d', calls = [current u, forecast u] \<rparr>))))"

section \<open>GET /api/export/csv\<close>

text \<open>\<open>${row.id}\<close>: an integer in decimal.\<close>

function showNat :: "nat \<Rightarrow> string" where
  "showNat n =
     (if n < 10 then [''0123456789'' ! n]
      else showNat (n div 10) @ [''0123456789'' ! (n mod 10)])"
  by pat_completeness auto
termination
  by (relation "measure id") auto

declare showNat.simps [simp del]

definition showInt :: "int \<Rightarrow> string" where
  "showInt i = (if i < 0 then CHR ''-'' # showNat (nat (- i)) else showNat (nat i))"








section \<open>The words of the specification\<close>

text \<open>
  A location is supplied when the body carries a location that is not empty (the handler
  tests it for truthiness everywhere); a coordinate pair is supplied when the body has
  both properties \<open>lat\<close> and \<open>lon\<close>, whatever their values, 0 and \<open>null\<close>
  included (the presence check compares them with \<open>undefined\<close>).
\<close>

definition suppliesLocation :: "body \<Rightarrow> bool" where
  "suppliesLocation b = truthy (location b)"

definition suppliesCoordinates :: "body \<Rightarrow> bool" where
  "suppliesCoordinates b = (lat b \<noteq> JUndefined \<and> lon b \<noteq> JUndefined)"

definition presenceError :: response where
  "presenceError = Json 400 (errorBody (JStr ''Location or coordinates required.''))"

text \<open>Status and body of a response, and a property of a value that is there.\<close>

fun status :: "response \<Rightarrow> nat" where
  "status (Json n v) = n"
| "status (Csv s) = 200"

fun responseBody :: "response \<Rightarrow> json" where
  "responseBody (Json n v) = v"
| "responseBody (Csv s) = JStr s"

definition field :: "json \<Rightarrow> string \<Rightarrow> json" where
  "field v k = (case getProp v k of Inr x \<Rightarrow> x | Inl e \<Rightarrow> JUndefined)"

text \<open>
  The response that mirrors an upstream rejection: as the claim words it (whenever the
  rejection carries a response), and as the handler does it (whenever that response has
  a body that is not empty).
\<close>

definition mirroredAsClaimed :: "(nat \<times> json) option \<Rightarrow> response" where
  "mirroredAsClaimed r =
     (case r of
        Some (st, data) \<Rightarrow> Json st (errorBody (field data ''message''))
      | None \<Rightarrow> genericFailure)"

definition mirrored :: "(nat \<times> json) option \<Rightarrow> response" where
  "mirrored r =
     (case r of
        Some (st, data) \<Rightarrow>
          if truthy data then Json st (errorBody (field data ''message'')) else genericFailure
      | None \<Rightarrow> genericFailure)"


section \<open>Example requests and upstream behaviours\<close>

definition startsWith :: "string \<Rightarrow> string \<Rightarrow> bool" where
  "startsWith p s = (take (length p) s = p)"

definition geoBase :: string where
  "geoBase = ''https://api.openweathermap.org/geo/1.0/''"

definition parisPlace :: json where
  "parisPlace =
     JObj [(''name'', JStr ''Paris''), (''lat'', JNum ''48.8589''), (''lon'', JNum ''2.32''),
           (''country'', JStr ''FR''), (''state'', JStr ''Ile-de-France'')]"

definition parisWeather :: json where
  "parisWeather =
     JObj [(''coord'', JObj [(''lon'', JNum ''2.3488''), (''lat'', JNum ''48.8534'')]),
           (''weather'', JArr [JObj [(''main'', JStr ''Clouds'')]]),
           (''main'', JObj [(''temp'', JNum ''11.3'')]),
           (''timezone'', JNum ''3600''), (''name'', JStr ''Paris'')]"

definition parisForecast :: json where
  "parisForecast = JObj [(''cnt'', JNum ''40''), (''list'', JArr [])]"

definition londonPlace :: json where
  "londonPlace =
     JObj [(''name'', JStr ''London''), (''lat'', JNum ''51.5073''), (''lon'', JNum ''-0.1276''),
           (''country'', JStr ''GB''), (''state'', JStr ''England'')]"

definition londonWeather :: json where
  "londonWeather =
     JObj [(''coord'', JObj [(''lon'', JNum ''-0.1257''), (''lat'', JNum ''51.5085'')]),
           (''weather'', JArr [JObj [(''main'', JStr ''Rain'')]]),
           (''main'', JObj [(''temp'', JNum ''8.2'')]),
           (''timezone'', JNum ''0''), (''name'', JStr ''London'')]"

definition invalidKey :: json where
  "invalidKey = JObj [(''cod'', JNum ''401''), (''message'', JStr ''Invalid API key'')]"

definition exampleDates :: "json \<Rightarrow> int option" where
  "exampleDates v =
     (if v = JStr ''2024-01-01'' then Some 1704067200000
      else if v = JStr ''2024-02-01'' then Some 1706745600000
      else if v = JStr ''2030-01-01'' then Some 1893456000000
      else None)"

definition storedText :: string where
  "storedText = ''{current,forecast}''"

text \<open>Every upstream request succeeds; geocoding knows one place.\<close>

definition exampleEnv :: env where
  "exampleEnv =
     \<lparr> apiKey = Some ''KEY'',
       httpGet = (\<lambda>u. if startsWith geoBase u then Inr (JArr [parisPlace])
                      else if startsWith forecastBase u then Inr parisForecast
                      else Inr parisWeather),
       forecastRejectsFirst = False,
       now = 1760000000000,
       parseDate = exampleDates,
       parseFloat = JNum,
       strPositive = (\<lambda>s. False),
       storeFails = False,
       bindText = (\<lambda>v. case v of JStr s \<Rightarrow> Some s | JNum s \<Rightarrow> Some s | _ \<Rightarrow> None),
       timestamp = ''2025-10-09 12:00:00'',
       idMatches = (\<lambda>s i. s = showInt i),
       JSONstringify = (\<lambda>v. storedText),
       JSONparse = (\<lambda>s. if s = storedText
                         then Inr (JObj [(''current'', parisWeather), (''forecast'', parisForecast)])
                         else Inl SyntaxError) \<rparr>"

text \<open>The weather of a place on Greenwich time, whose \<open>timezone\<close> is 0.\<close>

definition londonEnv :: env where
  "londonEnv =
     exampleEnv\<lparr> httpGet := (\<lambda>u. if startsWith geoBase u then Inr (JArr [londonPlace])
                                 else if startsWith forecastBase u then Inr parisForecast
                                 else Inr londonWeather) \<rparr>"

text \<open>The forecast request is rejected with a 502 that has an empty body.\<close>

definition badGatewayEnv :: env where
  "badGatewayEnv =
     exampleEnv\<lparr> httpGet := (\<lambda>u. if startsWith geoBase u then Inr (JArr [parisPlace])
                                 else if startsWith forecastBase u then Inl (Some (502, JStr []))
                                 else Inr parisWeather) \<rparr>"

text \<open>The forecast request is rejected with the provider's 401 and its message.\<close>

definition unauthorizedEnv :: env where
  "unauthorizedEnv =
     exampleEnv\<lparr> httpGet := (\<lambda>u. if startsWith geoBase u then Inr (JArr [parisPlace])
                                 else if startsWith forecastBase u then Inl (Some (401, invalidKey))
                                 else Inr parisWeather) \<rparr>"

text \<open>The geocoding provider cannot be reached; the weather provider answers.\<close>

definition geoDownEnv :: env where
  "geoDownEnv =
     exampleEnv\<lparr> httpGet := (\<lambda>u. if startsWith geoBase u then Inl None
                                 else if startsWith forecastBase u then Inr parisForecast
                                 else Inr parisWeather) \<rparr>"

text \<open>The geocoding provider answers with one result that has no field.\<close>

definition shapelessEnv :: env where
  "shapelessEnv =
     exampleEnv\<lparr> httpGet := (\<lambda>u. if startsWith geoBase u then Inr (JArr [JObj []])
                                 else if startsWith forecastBase u then Inr parisForecast
                                 else Inr parisWeather) \<rparr>"

text \<open>The geocoding provider answers 200 with a text that is no JSON.\<close>

definition textBodyEnv :: env where
  "textBodyEnv =
     exampleEnv\<lparr> httpGet := (\<lambda>u. if startsWith geoBase u then Inr (JStr ''Service Unavailable'')
                                 else if startsWith forecastBase u then Inr parisForecast
                                 else Inr parisWeather) \<rparr>"

definition emptyDb :: db where
  "emptyDb = \<lparr> rows = [], nextId = 1 \<rparr>"

definition parisRow :: row where
  "parisRow =
     \<lparr> row_id = 1, row_location = ''Paris, FR'', date_from = Some ''2024-01-01'',
       date_to = None, weather_data = storedText, created_at = ''2025-10-09 12:00:00'' \<rparr>"

definition oneRowDb :: db where
  "oneRowDb = \<lparr> rows = [parisRow], nextId = 2 \<rparr>"

definition noFields :: body where
  "noFields =
     \<lparr> location = JUndefined, lat = JUndefined, lon = JUndefined, type = JUndefined,
       dateFrom = JUndefined, dateTo = JUndefined \<rparr>"

definition paris :: body where
  "paris = noFields\<lparr> location := JStr ''Paris'' \<rparr>"

definition london :: body where
  "london = noFields\<lparr> location := JStr ''London'' \<rparr>"

definition nullIsland :: body where
  "nullIsland = noFields\<lparr> lat := JNum ''0'', lon := JNum ''0'' \<rparr>"

definition halfRange :: body where
  "halfRange = noFields\<lparr> location := JStr ''Paris'', dateFrom := JStr ''2024-01-01'' \<rparr>"



definition parisUrls :: urls where
  "parisUrls =
     \<lparr> current = ''https://api.openweathermap.org/data/2.5/weather?q=Paris&appid=KEY&units=metric'',
       forecast = ''https://api.openweathermap.org/data/2.5/forecast?q=Paris&appid=KEY&units=metric'' \<rparr>"

definition parisGeocodeUrl :: string where
  "parisGeocodeUrl = ''https://api.openweathermap.org/geo/1.0/direct?q=Paris&limit=1&appid=KEY''"



definition undefinedUrls :: urls where
  "undefinedUrls =
     \<lparr> current = ''https://api.openweathermap.org/data/2.5/weather?q=undefined&appid=KEY&units=metric'',
       forecast = ''https://api.openweathermap.org/data/2.5/forecast?q=undefined&appid=KEY&units=metric'' \<rparr>"

section \<open>Facts about the model\<close>

lemmas url_defs = byName_def byZip_def byCoordinates_def weatherBase_def forecastBase_def
  urlTail_def keyStr_def geocodeUrl_def reverseUrl_def

lemmas body_defs = noFields_def paris_def nullIsland_def

lemmas env_defs = exampleEnv_def startsWith_def geoBase_def exampleDates_def storedText_def

lemmas payload_defs = parisPlace_def parisWeather_def parisForecast_def

lemmas encode_defs = encodeURIComponent_def pctEncode_def uriUnreserved_def hexDigit_def

lemmas resolver_defs = getCoordinatesFromLocation_def getLocationFromCoordinates_def
  placeInfo_def fullName_def orElse_def

lemmas augment_defs = augment_def addCoordinates_def addEnhanced_def addTimezone_def

lemmas post_defs = postWeather_def presenceCheck_def dateCheck_def validateDateRange_def
  newDate_def postFetch_def enrich_def dispatch_def buildWeatherUrl_def promiseAll_def
  searched_def weatherRecord_def dbInsert_def errorBody_def genericFailure_def


lemma bindE_eq_Inl: "bindE m f = Inl e \<longleftrightarrow> m = Inl e \<or> (\<exists>x. m = Inr x \<and> f x = Inl e)"
  by (cases m) auto

subsection \<open>validateDateRange and the date check of the handlers\<close>

lemma validateDateRange_messages:
  assumes "validateDateRange E x y = Inr (Invalid msg)"
  shows "msg = ''Both dates are required'' \<or> msg = ''Invalid date format'' \<or>
         msg = ''Start date must be before end date'' \<or>
         msg = ''End date cannot be in the future''"
proof (cases "\<not> truthy x \<or> \<not> truthy y")
  case True
  with assms show ?thesis by (simp add: validateDateRange_def)
next
  case False
  show ?thesis
  proof (cases "newDate E x")
    case (Inl e)
    with assms False show ?thesis by (simp add: validateDateRange_def)
  next
    case fr: (Inr a)
    show ?thesis
    proof (cases "newDate E y")
      case (Inl e)
      with assms False fr show ?thesis by (simp add: validateDateRange_def)
    next
      case (Inr c)
      with assms False fr show ?thesis
        by (cases a; cases c) (simp_all add: validateDateRange_def split: if_splits)
    qed
  qed
qed

lemma dateCheck_response:
  assumes "dateCheck E x y = Inr (Some r)"
  shows "\<exists>msg. validateDateRange E x y = Inr (Invalid msg) \<and> r = Json 400 (errorBody (JStr msg))"
  using assms
  by (cases "validateDateRange E x y")
     (auto simp: dateCheck_def split: if_splits validation.splits)

lemma dateCheck_not_presence:
  assumes "dateCheck E x y = Inr (Some r)"
  shows "r \<noteq> presenceError"
proof -
  from dateCheck_response [OF assms] obtain msg
    where v: "validateDateRange E x y = Inr (Invalid msg)"
      and r: "r = Json 400 (errorBody (JStr msg))"
    by blast
  from validateDateRange_messages [OF v] r show ?thesis
    by (auto simp: presenceError_def errorBody_def)
qed

text \<open>
  With both dates there and convertible, the check answers 400 with the message of the
  first rule broken, and lets the request through when
  \<open>dateFrom \<le> dateTo \<le> now\<close>.
\<close>

lemma dateCheck_both_dates:
  assumes "truthy x" "truthy y" "newDate E x = Inr a" "newDate E y = Inr c"
  shows "dateCheck E x y =
           (case (a, c) of
              (Some f, Some t) \<Rightarrow>
                if t < f then Inr (Some (Json 400 (errorBody (JStr ''Start date must be before end date''))))
                else if now E < t then Inr (Some (Json 400 (errorBody (JStr ''End date cannot be in the future''))))
                else Inr None
            | _ \<Rightarrow> Inr (Some (Json 400 (errorBody (JStr ''Invalid date format'')))))"
  using assms
  by (cases a; cases c) (simp_all add: dateCheck_def validateDateRange_def)

lemma dateCheck_one_date:
  assumes "\<not> truthy x \<or> \<not> truthy y"
  shows "dateCheck E x y = Inr None"
  using assms by (auto simp: dateCheck_def)

lemma postWeather_both_dates:
  assumes "presenceCheck b = None" "truthy (dateFrom b)" "truthy (dateTo b)"
    and "newDate E (dateFrom b) = Inr a" "newDate E (dateTo b) = Inr c"
  shows "postWeather E d b =
           (case (a, c) of
              (Some f, Some t) \<Rightarrow>
                if t < f
                then \<lparr> resp = Json 400 (errorBody (JStr ''Start date must be before end date'')),
                       store = d, calls = [] \<rparr>
                else if now E < t
                then \<lparr> resp = Json 400 (errorBody (JStr ''End date cannot be in the future'')),
                       store = d, calls = [] \<rparr>
                else postFetch E d b
            | _ \<Rightarrow> \<lparr> resp = Json 400 (errorBody (JStr ''Invalid date format'')),
                       store = d, calls = [] \<rparr>)"
  using assms(1) dateCheck_both_dates [OF assms(2-5)]
  by (cases a; cases c) (simp_all add: postWeather_def)

lemma postWeather_date_rejection:
  assumes "presenceCheck b = None" "dateCheck E (dateFrom b) (dateTo b) = Inr (Some r)"
  shows "postWeather E d b = \<lparr> resp = r, store = d, calls = [] \<rparr>"
  using assms by (simp add: postWeather_def)

subsection \<open>buildWeatherUrl\<close>

lemma encode_undefined: "encodeURIComponent JUndefined = Inr ''undefined''"
  by (simp add: encode_defs)

text \<open>The three modes, for values that are truthy where the function asks for it.\<close>

lemma buildWeatherUrl_coordinates:
  assumes "truthy x" "truthy y" "toStr x = Inr la" "toStr y = Inr lo"
  shows "buildWeatherUrl E l x y t =
     Inr \<lparr> current = ''https://api.openweathermap.org/data/2.5/weather?lat='' @ la @ ''&lon='' @ lo
                       @ ''&appid='' @ keyStr E @ ''&units=metric'',
           forecast = ''https://api.openweathermap.org/data/2.5/forecast?lat='' @ la @ ''&lon='' @ lo
                       @ ''&appid='' @ keyStr E @ ''&units=metric'' \<rparr>"
  using assms
  by (simp add: buildWeatherUrl_def byCoordinates_def weatherBase_def forecastBase_def urlTail_def)

lemma buildWeatherUrl_zip:
  assumes "\<not> (truthy x \<and> truthy y)" "toStr l = Inr z"
  shows "buildWeatherUrl E l x y (JStr ''zip'') =
     Inr \<lparr> current = ''https://api.openweathermap.org/data/2.5/weather?zip='' @ z
                       @ ''&appid='' @ keyStr E @ ''&units=metric'',
           forecast = ''https://api.openweathermap.org/data/2.5/forecast?zip='' @ z
                       @ ''&appid='' @ keyStr E @ ''&units=metric'' \<rparr>"
  using assms
  by (auto simp: buildWeatherUrl_def byZip_def weatherBase_def forecastBase_def urlTail_def)

lemma buildWeatherUrl_name:
  assumes "\<not> (truthy x \<and> truthy y)" "t \<noteq> JStr ''zip''" "encodeURIComponent l = Inr q"
  shows "buildWeatherUrl E l x y t =
     Inr \<lparr> current = ''https://api.openweathermap.org/data/2.5/weather?q='' @ q
                       @ ''&appid='' @ keyStr E @ ''&units=metric'',
           forecast = ''https://api.openweathermap.org/data/2.5/forecast?q='' @ q
                       @ ''&appid='' @ keyStr E @ ''&units=metric'' \<rparr>"
  using assms
  by (auto simp: buildWeatherUrl_def byName_def weatherBase_def forecastBase_def urlTail_def)

subsection \<open>What can be thrown\<close>

text \<open>Outside of \<open>axios.get\<close>, the handlers throw nothing but a \<open>TypeError\<close>.\<close>

lemma toStr_TypeError:
  "toStr v = Inl e \<Longrightarrow> e = TypeError"
  "elemStr v = Inl e \<Longrightarrow> e = TypeError"
  "joinElems vs = Inl e \<Longrightarrow> e = TypeError"
  by (induction v and v and vs arbitrary: e and e and e rule: toStr_elemStr_joinElems.induct)
     (auto split: if_splits sum.splits)

lemma getProp_TypeError: "getProp v k = Inl e \<Longrightarrow> e = TypeError"
  by (cases v) auto

lemma setProp_TypeError: "setProp v k x = Inl e \<Longrightarrow> e = TypeError"
  by (cases v) auto

lemma getProp_truthy: "truthy v \<Longrightarrow> \<exists>x. getProp v k = Inr x"
  by (cases v) auto

lemma encodeURIComponent_TypeError: "encodeURIComponent v = Inl e \<Longrightarrow> e = TypeError"
  by (auto simp: encodeURIComponent_def bindE_eq_Inl dest: toStr_TypeError)

lemma newDate_TypeError: "newDate E v = Inl e \<Longrightarrow> e = TypeError"
  by (auto simp: newDate_def bindE_eq_Inl dest: toStr_TypeError)

lemma validateDateRange_TypeError:
  assumes "validateDateRange E x y = Inl e"
  shows "e = TypeError"
proof (cases "newDate E x")
  case (Inl e')
  with assms show ?thesis
    by (auto simp: validateDateRange_def split: if_splits dest: newDate_TypeError)
next
  case fr: (Inr a)
  show ?thesis
  proof (cases "newDate E y")
    case (Inl e')
    with assms fr show ?thesis
      by (auto simp: validateDateRange_def split: if_splits dest: newDate_TypeError)
  next
    case (Inr c)
    with assms fr show ?thesis
      by (cases a; cases c) (simp_all add: validateDateRange_def split: if_splits)
  qed
qed

lemma dateCheck_TypeError:
  assumes "dateCheck E x y = Inl e"
  shows "e = TypeError"
  using assms
  by (cases "validateDateRange E x y")
     (auto simp: dateCheck_def split: if_splits validation.splits dest: validateDateRange_TypeError)

lemma buildWeatherUrl_TypeError:
  assumes "buildWeatherUrl E l x y t = Inl e"
  shows "e = TypeError"
  using assms
  by (auto simp: buildWeatherUrl_def bindE_eq_Inl split: if_splits
      dest: toStr_TypeError encodeURIComponent_TypeError)

lemma searched_TypeError: "searched b = Inl e \<Longrightarrow> e = TypeError"
  by (auto simp: searched_def bindE_eq_Inl split: if_splits dest: toStr_TypeError)

lemma addCoordinates_TypeError: "addCoordinates c = Inl e \<Longrightarrow> e = TypeError"
  by (auto simp: addCoordinates_def bindE_eq_Inl split: if_splits
      dest: getProp_TypeError setProp_TypeError)

lemma addEnhanced_TypeError: "addEnhanced info c = Inl e \<Longrightarrow> e = TypeError"
  by (auto simp: addEnhanced_def bindE_eq_Inl split: if_splits
      dest: getProp_TypeError setProp_TypeError)

lemma addTimezone_TypeError: "addTimezone c = Inl e \<Longrightarrow> e = TypeError"
  by (auto simp: addTimezone_def bindE_eq_Inl split: if_splits
      dest: getProp_TypeError setProp_TypeError)

lemma augment_TypeError: "augment info c = Inl e \<Longrightarrow> e = TypeError"
  by (auto simp: augment_def bindE_eq_Inl
      dest: addCoordinates_TypeError addEnhanced_TypeError addTimezone_TypeError)

lemma catchPost_TypeError: "catchPost TypeError = genericFailure"
  by simp

lemma catchPost_mirrored: "catchPost (AxiosError r) = mirrored r"
proof (cases r)
  case None
  then show ?thesis by (simp add: mirrored_def)
next
  case (Some p)
  obtain st data where p: "p = (st, data)" by (cases p)
  show ?thesis
  proof (cases "truthy data")
    case True
    with getProp_truthy [of data "''message''"] obtain m where "getProp data ''message'' = Inr m"
      by blast
    with Some p True show ?thesis by (simp add: mirrored_def field_def)
  next
    case False
    with Some p show ?thesis by (simp add: mirrored_def)
  qed
qed

lemma promiseAll_cases:
  "promiseAll E u =
     (case httpGet E (current u) of
        Inl r1 \<Rightarrow> (case httpGet E (forecast u) of
                     Inl r2 \<Rightarrow> Inl (AxiosError (if forecastRejectsFirst E then r2 else r1))
                   | Inr f \<Rightarrow> Inl (AxiosError r1))
      | Inr c \<Rightarrow> (case httpGet E (forecast u) of
                    Inl r2 \<Rightarrow> Inl (AxiosError r2)
                  | Inr f \<Rightarrow> Inr (c, f)))"
  by (simp add: promiseAll_def split: sum.splits)

text \<open>
  The handler after its two checks: the three ways it can end. \<open>geo\<close> is what the
  resolver requested.
\<close>

lemma postFetch_cases:
  assumes "postFetch E d b = out"
  obtains
    (url) "resp out = genericFailure" "store out = d"
      "\<exists>e. buildWeatherUrl E (location b) (lat b) (lon b) (type b) = Inl e"
  | (rejected) u r where "buildWeatherUrl E (location b) (lat b) (lon b) (type b) = Inr u"
      "promiseAll E u = Inl (AxiosError r)" "resp out = mirrored r" "store out = d"
  | (thrown) u c f where "buildWeatherUrl E (location b) (lat b) (lon b) (type b) = Inr u"
      "promiseAll E u = Inr (c, f)" "resp out = genericFailure" "store out = d"
  | (served) u c f s c' where "buildWeatherUrl E (location b) (lat b) (lon b) (type b) = Inr u"
      "promiseAll E u = Inr (c, f)" "searched b = Inr s" "augment (fst (enrich E b)) c = Inr c'"
      "resp out = Json 200 (weatherRecord c' f s)"
proof (cases "buildWeatherUrl E (location b) (lat b) (lon b) (type b)")
  case (Inl e)
  with buildWeatherUrl_TypeError [OF Inl] assms have "resp out = genericFailure" "store out = d"
    by (auto simp: postFetch_def split: prod.splits)
  with Inl url show ?thesis by blast
next
  case bu: (Inr u)
  show ?thesis
  proof (cases "promiseAll E u")
    case (Inl e)
    then obtain r where e: "e = AxiosError r"
      by (auto simp: promiseAll_def split: sum.splits)
    with Inl bu assms have "resp out = mirrored r" "store out = d"
      by (auto simp: postFetch_def catchPost_mirrored split: prod.splits)
    with bu Inl e rejected show ?thesis by blast
  next
    case pa: (Inr p)
    obtain c f where p: "p = (c, f)" by (cases p)
    show ?thesis
    proof (cases "searched b")
      case (Inl e)
      with searched_TypeError [OF Inl] bu pa p assms
      have "resp out = genericFailure" "store out = d"
        by (auto simp: postFetch_def split: prod.splits)
      with bu pa p thrown show ?thesis by blast
    next
      case se: (Inr s)
      show ?thesis
      proof (cases "augment (fst (enrich E b)) c")
        case (Inl e)
        with augment_TypeError [OF Inl] bu pa p se assms
        have "resp out = genericFailure" "store out = d"
          by (auto simp: postFetch_def split: prod.splits)
        with bu pa p thrown show ?thesis by blast
      next
        case (Inr c')
        with bu pa p se assms have "resp out = Json 200 (weatherRecord c' f s)"
          by (auto simp: postFetch_def split: prod.splits)
        with bu pa p se Inr served show ?thesis by blast
      qed
    qed
  qed
qed

lemma mirrored_presence:
  assumes "mirrored r = presenceError"
  obtains data where "r = Some (400, data)"
    and "field data ''message'' = JStr ''Location or coordinates required.''"
  using assms
  by (auto simp: mirrored_def presenceError_def genericFailure_def errorBody_def
      split: option.splits if_splits)

lemma promiseAll_rejection:
  "promiseAll E u = Inl (AxiosError r) \<Longrightarrow>
     httpGet E (current u) = Inl r \<or> httpGet E (forecast u) = Inl r"
  by (auto simp: promiseAll_def split: sum.splits if_splits)

lemma promiseAll_fulfilled:
  "promiseAll E u = Inr (c, f) \<Longrightarrow> httpGet E (current u) = Inr c \<and> httpGet E (forecast u) = Inr f"
  by (auto simp: promiseAll_def split: sum.splits)

lemma mirrored_not_record: "mirrored r \<noteq> Json 200 (weatherRecord c f s)"
  by (auto simp: mirrored_def genericFailure_def errorBody_def weatherRecord_def
      split: option.splits)

subsection \<open>The record of a successful request\<close>

lemma field_object: "field (JObj kvs) k = (case map_of kvs k of None \<Rightarrow> JUndefined | Some v \<Rightarrow> v)"
  by (simp add: field_def)


text \<open>
  On a payload that is an object the three steps of lines 204 to 206 never throw; they
  write four properties and leave every other one as it came.
\<close>

lemma augment_object:
  fixes kvs :: "(string \<times> json) list"
  defines "c \<equiv> JObj kvs"
  shows "\<exists>c'. augment info c = Inr c'
     \<and> field c' ''coordinates'' =
         (if truthy (field c ''coord'')
          then JObj [(''lat'', field (field c ''coord'') ''lat''),
                     (''lon'', field (field c ''coord'') ''lon'')]
          else field c ''coordinates'')
     \<and> field c' ''enhancedLocation'' = (if truthy info then info else field c ''enhancedLocation'')
     \<and> field c' ''displayName'' =
         (if truthy info then field info ''fullName'' else field c ''displayName'')
     \<and> field c' ''timezoneOffset'' =
         (if truthy (field c ''timezone'') then field c ''timezone'' else field c ''timezoneOffset'')
     \<and> (\<forall>k. k \<notin> {''coordinates'', ''enhancedLocation'', ''displayName'', ''timezoneOffset''}
            \<longrightarrow> field c' k = field c k)"
proof -
  obtain crd where crd: "getProp c ''coord'' = Inr crd" by (simp add: c_def)
  have "\<exists>kvs1. addCoordinates c = Inr (JObj kvs1)
     \<and> map_of kvs1 = (if truthy crd
          then (map_of kvs)(''coordinates'' \<mapsto> JObj [(''lat'', field crd ''lat''), (''lon'', field crd ''lon'')])
          else map_of kvs)"
  proof (cases "truthy crd")
    case True
    from getProp_truthy [OF True] obtain la lo
      where "getProp crd ''lat'' = Inr la" "getProp crd ''lon'' = Inr lo" by blast
    with True crd show ?thesis
      by (simp add: addCoordinates_def c_def update_conv' field_def)
  next
    case False
    with crd show ?thesis by (simp add: addCoordinates_def c_def)
  qed
  then obtain kvs1 where a1: "addCoordinates c = Inr (JObj kvs1)"
    and m1: "map_of kvs1 = (if truthy crd
          then (map_of kvs)(''coordinates'' \<mapsto> JObj [(''lat'', field crd ''lat''), (''lon'', field crd ''lon'')])
          else map_of kvs)"
    by blast
  have "\<exists>kvs2. addEnhanced info (JObj kvs1) = Inr (JObj kvs2)
     \<and> map_of kvs2 = (if truthy info
          then (map_of kvs1)(''enhancedLocation'' \<mapsto> info, ''displayName'' \<mapsto> field info ''fullName'')
          else map_of kvs1)"
  proof (cases "truthy info")
    case True
    from getProp_truthy [OF True] obtain full where "getProp info ''fullName'' = Inr full" by blast
    with True show ?thesis
      by (simp add: addEnhanced_def update_conv' field_def)
  next
    case False
    then show ?thesis by (simp add: addEnhanced_def)
  qed
  then obtain kvs2 where a2: "addEnhanced info (JObj kvs1) = Inr (JObj kvs2)"
    and m2: "map_of kvs2 = (if truthy info
          then (map_of kvs1)(''enhancedLocation'' \<mapsto> info, ''displayName'' \<mapsto> field info ''fullName'')
          else map_of kvs1)"
    by blast
  define tz where "tz = field (JObj kvs2) ''timezone''"
  have a3: "addTimezone (JObj kvs2)
      = Inr (JObj (if truthy tz then AList.update ''timezoneOffset'' tz kvs2 else kvs2))"
    by (simp add: addTimezone_def tz_def field_def)
  have tz: "tz = field c ''timezone''"
    by (simp add: tz_def field_object m1 m2 c_def)
  have crd': "crd = field c ''coord''"
    using crd by (simp add: field_def)
  let ?kvs3 = "if truthy tz then AList.update ''timezoneOffset'' tz kvs2 else kvs2"
  have m3: "map_of ?kvs3 = (if truthy tz then (map_of kvs2)(''timezoneOffset'' \<mapsto> tz) else map_of kvs2)"
    by (simp add: update_conv')
  have "augment info c = Inr (JObj ?kvs3)"
    using a1 a2 a3 by (simp add: augment_def)
  moreover have "field (JObj ?kvs3) ''coordinates'' =
         (if truthy (field c ''coord'')
          then JObj [(''lat'', field (field c ''coord'') ''lat''),
                     (''lon'', field (field c ''coord'') ''lon'')]
          else field c ''coordinates'')"
    unfolding field_object m3 m2 m1 by (simp add: crd' c_def field_object)
  moreover have "field (JObj ?kvs3) ''enhancedLocation'' =
      (if truthy info then info else field c ''enhancedLocation'')"
    unfolding field_object m3 m2 m1 by (simp add: c_def field_object)
  moreover have "field (JObj ?kvs3) ''displayName'' =
      (if truthy info then field info ''fullName'' else field c ''displayName'')"
    unfolding field_object m3 m2 m1 by (simp add: c_def field_object)
  moreover have "field (JObj ?kvs3) ''timezoneOffset'' =
      (if truthy (field c ''timezone'') then field c ''timezone'' else field c ''timezoneOffset'')"
    unfolding field_object m3 m2 m1 by (simp add: tz c_def field_object)
  moreover have "field (JObj ?kvs3) k = field c k"
    if "k \<notin> {''coordinates'', ''enhancedLocation'', ''displayName'', ''timezoneOffset''}" for k
    using that unfolding field_object m3 m2 m1 by (simp add: c_def field_object)
  ultimately show ?thesis by blast
qed

text \<open>
  A request that passes the checks and whose two upstream requests succeed, the current
  conditions being an object, is answered 200 with the record of the two payloads, the
  first of them augmented, and the searched location.
\<close>

lemma successful_record:
  assumes "presenceCheck b = None" "dateCheck E (dateFrom b) (dateTo b) = Inr None"
    and "buildWeatherUrl E (location b) (lat b) (lon b) (type b) = Inr u"
    and "httpGet E (current u) = Inr (JObj kvs)" "httpGet E (forecast u) = Inr f"
    and "searched b = Inr s"
  shows "\<exists>c'. augment (fst (enrich E b)) (JObj kvs) = Inr c'
     \<and> resp (postWeather E d b) = Json 200 (weatherRecord c' f s)
     \<and> calls (postWeather E d b) = snd (enrich E b) @ [current u, forecast u]"
proof -
  from augment_object [of "fst (enrich E b)" kvs] obtain c'
    where c': "augment (fst (enrich E b)) (JObj kvs) = Inr c'" by blast
  with assms have "resp (postWeather E d b) = Json 200 (weatherRecord c' f s)"
    "calls (postWeather E d b) = snd (enrich E b) @ [current u, forecast u]"
    by (cases "enrich E b"; simp add: postWeather_def postFetch_def promiseAll_def)+
  with c' show ?thesis by blast
qed

subsection \<open>The resolvers\<close>

lemma placeInfo_no_results:
  "\<not> truthy data \<or> data = JArr [] \<Longrightarrow> placeInfo E la lo data = Inr JNull"
  by (auto simp: placeInfo_def)






subsection \<open>The store\<close>

lemma dbUpdate_no_match:
  assumes "\<forall>r \<in> set (rows d). \<not> idMatches E ident (row_id r)" and "\<not> storeFails E"
  shows "dbUpdate E d ident loc dfrom dto wd = Some (0, d)"
proof -
  let ?hit = "\<lambda>r. idMatches E ident (row_id r)"
  from assms(1) have none: "filter ?hit (rows d) = []" by simp
  have same: "map (\<lambda>r. if ?hit r then setRow l x y wd r else r) (rows d) = rows d" for l x y
    using assms(1) by (intro map_idI) simp
  show ?thesis
    using assms(2) none same by (simp add: dbUpdate_def Let_def split: option.splits)
qed

subsection \<open>The lines of the export\<close>








section \<open>The claims\<close>

text \<open>
  C1. The claim: a POST /api/weather request with a date range is answered 400 when one
  of \<open>dateFrom\<close> and \<open>dateTo\<close> is absent while the other is present. The handler
  calls \<open>validateDateRange\<close> only when both are there, so the rule of that function
  that both dates are required is never reached: the request of \<open>halfRange\<close>, which
  has a \<open>dateFrom\<close> and no \<open>dateTo\<close>, would be refused by \<open>validateDateRange\<close>,
  passes the handler's date check, is answered 200 and is stored with one date.
\<close>

theorem half_range_accepted:
  "validateDateRange exampleEnv (dateFrom halfRange) (dateTo halfRange)
     = Inr (Invalid ''Both dates are required'')
   \<and> dateCheck exampleEnv (dateFrom halfRange) (dateTo halfRange) = Inr None
   \<and> status (resp (postWeather exampleEnv emptyDb halfRange)) = 200
   \<and> map date_from (rows (store (postWeather exampleEnv emptyDb halfRange))) = [Some ''2024-01-01'']
   \<and> map date_to (rows (store (postWeather exampleEnv emptyDb halfRange))) = [None]"
  by (simp add: post_defs body_defs halfRange_def env_defs url_defs encode_defs resolver_defs
        augment_defs payload_defs emptyDb_def)

theorem half_range_accepted_witness:
  "dateCheck exampleEnv (dateFrom halfRange) (dateTo halfRange) = Inr None
   \<and> resp (postWeather exampleEnv emptyDb halfRange)
       \<noteq> Json 400 (errorBody (JStr ''Both dates are required''))"
proof -
  from half_range_accepted have "status (resp (postWeather exampleEnv emptyDb halfRange)) = 200"
    by blast
  then have "resp (postWeather exampleEnv emptyDb halfRange)
       \<noteq> Json 400 (errorBody (JStr ''Both dates are required''))"
    by auto
  with half_range_accepted show ?thesis by blast
qed

text \<open>
  C2. The claim: when both \<open>lat\<close> and \<open>lon\<close> are given, \<open>buildWeatherUrl\<close>
  returns the URLs that query by coordinates. The function tests the two values for
  truthiness, so a coordinate 0 counts as not given: for latitude 51.48 and longitude 0
  it returns the URLs that query by the name \<open>undefined\<close>.
\<close>

theorem zero_longitude_by_name:
  "buildWeatherUrl exampleEnv JUndefined (JNum ''51.48'') (JNum ''0'') JUndefined
     = Inr undefinedUrls
   \<and> Inr undefinedUrls \<noteq> (Inr (byCoordinates exampleEnv ''51.48'' ''0'') :: error + urls)"
  by (simp add: buildWeatherUrl_def encode_defs url_defs env_defs undefinedUrls_def)

theorem zero_longitude_by_name_witness:
  "buildWeatherUrl exampleEnv JUndefined (JNum ''51.48'') (JNum ''0'') JUndefined
     \<noteq> Inr (byCoordinates exampleEnv ''51.48'' ''0'')"
  using zero_longitude_by_name by simp

text \<open>
  C3. The presence check of POST /api/weather answers 400 with the error
  \<open>Location or coordinates required.\<close> exactly when the body supplies neither a
  location nor both \<open>lat\<close> and \<open>lon\<close>; that answer is then the handler's response,
  no upstream request is issued and the store is untouched. When a location or both
  coordinates are supplied the check passes, and the handler answers with that 400 only
  if it mirrors an upstream rejection that carries this status and this message.
\<close>

theorem presence_check:
  "(presenceCheck b = Some presenceError \<longleftrightarrow> \<not> suppliesLocation b \<and> \<not> suppliesCoordinates b)
   \<and> (\<not> suppliesLocation b \<and> \<not> suppliesCoordinates b \<longrightarrow>
        postWeather E d b = \<lparr> resp = presenceError, store = d, calls = [] \<rparr>)
   \<and> (suppliesLocation b \<or> suppliesCoordinates b \<longrightarrow> presenceCheck b = None)
   \<and> ((suppliesLocation b \<or> suppliesCoordinates b) \<and> resp (postWeather E d b) = presenceError \<longrightarrow>
        (\<exists>u data. buildWeatherUrl E (location b) (lat b) (lon b) (type b) = Inr u
           \<and> (httpGet E (current u) = Inl (Some (400, data))
                \<or> httpGet E (forecast u) = Inl (Some (400, data)))
           \<and> field data ''message'' = JStr ''Location or coordinates required.''))"
proof -
  have check: "presenceCheck b = Some presenceError \<longleftrightarrow> \<not> suppliesLocation b \<and> \<not> suppliesCoordinates b"
    by (auto simp: presenceCheck_def presenceError_def suppliesLocation_def suppliesCoordinates_def)
  have passes: "suppliesLocation b \<or> suppliesCoordinates b \<longrightarrow> presenceCheck b = None"
    by (auto simp: presenceCheck_def suppliesLocation_def suppliesCoordinates_def)
  have refused: "\<not> suppliesLocation b \<and> \<not> suppliesCoordinates b \<longrightarrow>
        postWeather E d b = \<lparr> resp = presenceError, store = d, calls = [] \<rparr>"
    using check by (auto simp: postWeather_def)
  have mirror: "\<exists>u data. buildWeatherUrl E (location b) (lat b) (lon b) (type b) = Inr u
           \<and> (httpGet E (current u) = Inl (Some (400, data))
                \<or> httpGet E (forecast u) = Inl (Some (400, data)))
           \<and> field data ''message'' = JStr ''Location or coordinates required.''"
    if supplied: "suppliesLocation b \<or> suppliesCoordinates b"
      and answer: "resp (postWeather E d b) = presenceError"
  proof -
    from supplied passes have pc: "presenceCheck b = None" by blast
    show ?thesis
    proof (cases "dateCheck E (dateFrom b) (dateTo b)")
      case (Inl e)
      with dateCheck_TypeError [OF Inl] pc answer show ?thesis
        by (simp add: postWeather_def presenceError_def genericFailure_def)
    next
      case (Inr ok)
      show ?thesis
      proof (cases ok)
        case (Some r)
        with Inr pc answer dateCheck_not_presence [of E "dateFrom b" "dateTo b" r]
        show ?thesis by (simp add: postWeather_def)
      next
        case None
        with Inr pc have pw: "postWeather E d b = postFetch E d b"
          by (simp add: postWeather_def)
        have "postFetch E d b = postWeather E d b" using pw by simp
        then show ?thesis
        proof (cases rule: postFetch_cases)
          case url
          with answer show ?thesis by (simp add: presenceError_def genericFailure_def)
        next
          case (rejected u r)
          from rejected(3) answer have "mirrored r = presenceError" by simp
          then obtain data where r: "r = Some (400, data)"
            and m: "field data ''message'' = JStr ''Location or coordinates required.''"
            by (rule mirrored_presence)
          from promiseAll_rejection [OF rejected(2)] r rejected(1) m show ?thesis by blast
        next
          case (thrown u c f)
          with answer show ?thesis by (simp add: presenceError_def genericFailure_def)
        next
          case (served u c f s c')
          with answer show ?thesis by (simp add: presenceError_def)
        qed
      qed
    qed
  qed
  from check refused passes mirror show ?thesis by blast
qed

theorem presence_check_witness:
  "\<not> suppliesLocation noFields \<and> \<not> suppliesCoordinates noFields
   \<and> postWeather exampleEnv emptyDb noFields = \<lparr> resp = presenceError, store = emptyDb, calls = [] \<rparr>
   \<and> suppliesLocation paris \<and> presenceCheck paris = None
   \<and> suppliesCoordinates nullIsland \<and> presenceCheck nullIsland = None"
  using presence_check [of noFields exampleEnv emptyDb] presence_check [of paris]
    presence_check [of nullIsland]
  by (simp add: suppliesLocation_def suppliesCoordinates_def body_defs)

text \<open>
  C4, as claimed: whenever the rejection of an upstream request carries a response, the
  handler answers with its status and message. It does not when that response has an
  empty body: the forecast request is rejected with a 502 without body, and the handler
  answers 500 with its own text.
\<close>

theorem empty_body_rejection:
  "presenceCheck paris = None
   \<and> dateCheck badGatewayEnv (dateFrom paris) (dateTo paris) = Inr None
   \<and> buildWeatherUrl badGatewayEnv (location paris) (lat paris) (lon paris) (type paris)
       = Inr parisUrls
   \<and> httpGet badGatewayEnv (current parisUrls) = Inr parisWeather
   \<and> httpGet badGatewayEnv (forecast parisUrls) = Inl (Some (502, JStr []))
   \<and> resp (postWeather badGatewayEnv emptyDb paris) = genericFailure
   \<and> resp (postWeather badGatewayEnv emptyDb paris) \<noteq> mirroredAsClaimed (Some (502, JStr []))"
  by (simp add: post_defs body_defs env_defs badGatewayEnv_def url_defs encode_defs
        resolver_defs augment_defs payload_defs emptyDb_def parisUrls_def mirroredAsClaimed_def
        field_def)

text \<open>
  C4, amended. For a request that passes both checks and whose URLs are built: when
  either upstream request is rejected the handler stores nothing and answers for the
  rejection that came first, with the upstream status and message when the rejection
  carries a response with a body that is not empty, with 500 and
  \<open>Failed to fetch weather data.\<close> otherwise; and a 200 with a weather record is
  answered only when both requests succeeded.
\<close>

theorem upstream_failure:
  assumes "presenceCheck b = None"
    and "dateCheck E (dateFrom b) (dateTo b) = Inr None"
    and "buildWeatherUrl E (location b) (lat b) (lon b) (type b) = Inr u"
  shows "(\<forall>r f. httpGet E (current u) = Inl r \<and> httpGet E (forecast u) = Inr f \<longrightarrow>
            resp (postWeather E d b) = mirrored r \<and> store (postWeather E d b) = d)
     \<and> (\<forall>c r. httpGet E (current u) = Inr c \<and> httpGet E (forecast u) = Inl r \<longrightarrow>
            resp (postWeather E d b) = mirrored r \<and> store (postWeather E d b) = d)
     \<and> (\<forall>r1 r2. httpGet E (current u) = Inl r1 \<and> httpGet E (forecast u) = Inl r2 \<longrightarrow>
            resp (postWeather E d b) = mirrored (if forecastRejectsFirst E then r2 else r1)
            \<and> store (postWeather E d b) = d)
     \<and> (\<forall>c' f s. resp (postWeather E d b) = Json 200 (weatherRecord c' f s) \<longrightarrow>
            (\<exists>c. httpGet E (current u) = Inr c) \<and> httpGet E (forecast u) = Inr f)"
proof -
  from assms have pw: "postWeather E d b = postFetch E d b"
    by (simp add: postWeather_def)
  have rejected: "resp (postWeather E d b) = mirrored r \<and> store (postWeather E d b) = d"
    if "promiseAll E u = Inl (AxiosError r)" for r
    using that assms(3) pw
    by (auto simp: postFetch_def catchPost_mirrored split: prod.splits)
  have only: "(\<exists>c. httpGet E (current u) = Inr c) \<and> httpGet E (forecast u) = Inr f"
    if answer: "resp (postWeather E d b) = Json 200 (weatherRecord c' f s)" for c' f s
  proof -
    have "postFetch E d b = postWeather E d b" using pw by simp
    then show ?thesis
    proof (cases rule: postFetch_cases)
      case url
      with assms(3) show ?thesis by simp
    next
      case (rejected v r)
      with answer mirrored_not_record [of r c' f s] show ?thesis by simp
    next
      case (thrown v c g)
      with answer show ?thesis by (simp add: genericFailure_def)
    next
      case (served v c g t c'')
      from served(5) answer have "g = f" by (simp add: weatherRecord_def)
      with served(1,2) assms(3) promiseAll_fulfilled [of E v c g] show ?thesis by auto
    qed
  qed
  have first: "resp (postWeather E d b) = mirrored r \<and> store (postWeather E d b) = d"
    if "httpGet E (current u) = Inl r" "httpGet E (forecast u) = Inr f" for r f
    using that by (intro rejected) (simp add: promiseAll_def)
  have second: "resp (postWeather E d b) = mirrored r \<and> store (postWeather E d b) = d"
    if "httpGet E (current u) = Inr c" "httpGet E (forecast u) = Inl r" for c r
    using that by (intro rejected) (simp add: promiseAll_def)
  have both: "resp (postWeather E d b) = mirrored (if forecastRejectsFirst E then r2 else r1)
      \<and> store (postWeather E d b) = d"
    if "httpGet E (current u) = Inl r1" "httpGet E (forecast u) = Inl r2" for r1 r2
    using that by (intro rejected) (simp add: promiseAll_def)
  from first second both only show ?thesis by blast
qed

theorem upstream_failure_witness:
  "presenceCheck paris = None
   \<and> dateCheck unauthorizedEnv (dateFrom paris) (dateTo paris) = Inr None
   \<and> buildWeatherUrl unauthorizedEnv (location paris) (lat paris) (lon paris) (type paris)
       = Inr parisUrls
   \<and> httpGet unauthorizedEnv (current parisUrls) = Inr parisWeather
   \<and> httpGet unauthorizedEnv (forecast parisUrls) = Inl (Some (401, invalidKey))
   \<and> resp (postWeather unauthorizedEnv emptyDb paris) = Json 401 (errorBody (JStr ''Invalid API key''))
   \<and> store (postWeather unauthorizedEnv emptyDb paris) = emptyDb"
proof -
  have h: "presenceCheck paris = None"
    "dateCheck unauthorizedEnv (dateFrom paris) (dateTo paris) = Inr None"
    "buildWeatherUrl unauthorizedEnv (location paris) (lat paris) (lon paris) (type paris)
       = Inr parisUrls"
    by (simp_all add: presenceCheck_def dateCheck_def buildWeatherUrl_def body_defs env_defs
          unauthorizedEnv_def url_defs encode_defs parisUrls_def)
  have g: "httpGet unauthorizedEnv (current parisUrls) = Inr parisWeather"
    "httpGet unauthorizedEnv (forecast parisUrls) = Inl (Some (401, invalidKey))"
    by (simp_all add: env_defs unauthorizedEnv_def parisUrls_def url_defs)
  have m: "mirrored (Some (401, invalidKey)) = Json 401 (errorBody (JStr ''Invalid API key''))"
    by (simp add: mirrored_def invalidKey_def field_def)
  from upstream_failure [OF h, of emptyDb] g m h show ?thesis by simp
qed

text \<open>
  C5. The claim: \<open>timezoneOffset\<close> is copied from \<open>current.timezone\<close> when that is
  present. The handler copies it when it is truthy, so the offset 0 of a place on
  Greenwich time is not copied: the payload for London carries \<open>timezone = 0\<close>, and
  the current conditions of the response have the display name of the enrichment and no
  \<open>timezoneOffset\<close>.
\<close>

theorem greenwich_offset_missing:
  "field londonWeather ''timezone'' = JNum ''0''
   \<and> status (resp (postWeather londonEnv emptyDb london)) = 200
   \<and> field (field (responseBody (resp (postWeather londonEnv emptyDb london))) ''current'')
        ''timezone'' = JNum ''0''
   \<and> field (field (responseBody (resp (postWeather londonEnv emptyDb london))) ''current'')
        ''timezoneOffset'' = JUndefined
   \<and> field (field (responseBody (resp (postWeather londonEnv emptyDb london))) ''current'')
        ''displayName'' = JStr ''London, England, GB''
   \<and> field (responseBody (resp (postWeather londonEnv emptyDb london))) ''searchedLocation''
        = JStr ''London''"
  by (simp add: post_defs body_defs env_defs londonEnv_def london_def londonPlace_def
        londonWeather_def url_defs encode_defs resolver_defs augment_defs payload_defs
        emptyDb_def field_def)

theorem greenwich_offset_missing_witness:
  "field (field (responseBody (resp (postWeather londonEnv emptyDb london))) ''current'')
        ''timezoneOffset''
     \<noteq> field londonWeather ''timezone''"
  using greenwich_offset_missing by simp




text \<open>
  C7, as claimed: a resolver returns \<open>null\<close> for a malformed payload. It does so only
  when reading the payload throws. For a payload whose one result has no field, and for
  a payload that is a text instead of JSON, the forward resolver returns an object of
  undefined fields, and the response carries the display name made of them.
\<close>

theorem shapeless_result_not_null:
  "httpGet shapelessEnv parisGeocodeUrl = Inr (JArr [JObj []])
   \<and> getCoordinatesFromLocation shapelessEnv (JStr ''Paris'')
       = (JObj [(''lat'', JUndefined), (''lon'', JUndefined), (''name'', JUndefined),
                (''country'', JUndefined), (''state'', JNull),
                (''fullName'', JStr ''undefined, undefined'')],
          [parisGeocodeUrl])
   \<and> fst (getCoordinatesFromLocation shapelessEnv (JStr ''Paris'')) \<noteq> JNull
   \<and> field (field (responseBody (resp (postWeather shapelessEnv emptyDb paris))) ''current'')
        ''displayName'' = JStr ''undefined, undefined''
   \<and> httpGet textBodyEnv parisGeocodeUrl = Inr (JStr ''Service Unavailable'')
   \<and> fst (getCoordinatesFromLocation textBodyEnv (JStr ''Paris'')) \<noteq> JNull
   \<and> field (field (responseBody (resp (postWeather textBodyEnv emptyDb paris))) ''current'')
        ''displayName'' = JStr ''undefined, undefined''"
  by (simp add: post_defs body_defs env_defs shapelessEnv_def textBodyEnv_def url_defs
        encode_defs resolver_defs augment_defs payload_defs emptyDb_def field_def
        parisGeocodeUrl_def)

text \<open>
  C7, amended. A resolver returns \<open>null\<close> when its URL cannot be built, when the
  request is rejected (with or without an upstream response), when the payload is empty
  or an empty array, and when reading the payload throws; nothing is propagated to the
  handler. With an enrichment that is \<open>null\<close>, a request that passes the checks and
  whose two weather requests succeed with an object for the current conditions is
  answered 200 with the record, to whose \<open>enhancedLocation\<close> and \<open>displayName\<close>
  nothing has been written.
\<close>

theorem resolvers_swallow:
  "(\<forall>e. encodeURIComponent loc = Inl e \<longrightarrow> getCoordinatesFromLocation E loc = (JNull, []))
   \<and> (\<forall>q. encodeURIComponent loc = Inr q \<longrightarrow>
         (\<forall>r. httpGet E (geocodeUrl E q) = Inl r \<longrightarrow>
               getCoordinatesFromLocation E loc = (JNull, [geocodeUrl E q]))
       \<and> (\<forall>data. httpGet E (geocodeUrl E q) = Inr data
               \<and> (\<not> truthy data \<or> data = JArr []
                   \<or> (\<exists>e. placeInfo E (\<lambda>p. getProp p ''lat'') (\<lambda>p. getProp p ''lon'') data = Inl e))
               \<longrightarrow> getCoordinatesFromLocation E loc = (JNull, [geocodeUrl E q])))
   \<and> (\<forall>e. toStr la = Inl e \<or> toStr lo = Inl e \<longrightarrow> getLocationFromCoordinates E la lo = (JNull, []))
   \<and> (\<forall>x y. toStr la = Inr x \<and> toStr lo = Inr y \<longrightarrow>
         (\<forall>r. httpGet E (reverseUrl E x y) = Inl r \<longrightarrow>
               getLocationFromCoordinates E la lo = (JNull, [reverseUrl E x y]))
       \<and> (\<forall>data. httpGet E (reverseUrl E x y) = Inr data
               \<and> (\<not> truthy data \<or> data = JArr []
                   \<or> (\<exists>e. placeInfo E (\<lambda>p. bindE (toStr la) (\<lambda>s. Inr (parseFloat E s)))
                              (\<lambda>p. bindE (toStr lo) (\<lambda>s. Inr (parseFloat E s))) data = Inl e))
               \<longrightarrow> getLocationFromCoordinates E la lo = (JNull, [reverseUrl E x y])))
   \<and> (\<forall>u kvs f s. fst (enrich E b) = JNull \<and> presenceCheck b = None
          \<and> dateCheck E (dateFrom b) (dateTo b) = Inr None
          \<and> buildWeatherUrl E (location b) (lat b) (lon b) (type b) = Inr u
          \<and> httpGet E (current u) = Inr (JObj kvs) \<and> httpGet E (forecast u) = Inr f
          \<and> searched b = Inr s
        \<longrightarrow> (\<exists>c'. resp (postWeather E d b) = Json 200 (weatherRecord c' f s)
               \<and> field c' ''enhancedLocation'' = field (JObj kvs) ''enhancedLocation''
               \<and> field c' ''displayName'' = field (JObj kvs) ''displayName''))"
proof -
  have forward_url: "getCoordinatesFromLocation E loc = (JNull, [])"
    if "encodeURIComponent loc = Inl e" for e
    using that by (simp add: getCoordinatesFromLocation_def)
  have forward_rejected: "getCoordinatesFromLocation E loc = (JNull, [geocodeUrl E q])"
    if "encodeURIComponent loc = Inr q" "httpGet E (geocodeUrl E q) = Inl r" for q r
    using that by (simp add: getCoordinatesFromLocation_def)
  have forward_payload: "getCoordinatesFromLocation E loc = (JNull, [geocodeUrl E q])"
    if "encodeURIComponent loc = Inr q" "httpGet E (geocodeUrl E q) = Inr data"
      "\<not> truthy data \<or> data = JArr []
         \<or> (\<exists>e. placeInfo E (\<lambda>p. getProp p ''lat'') (\<lambda>p. getProp p ''lon'') data = Inl e)"
    for q data
    using that placeInfo_no_results [of data E "\<lambda>p. getProp p ''lat''" "\<lambda>p. getProp p ''lon''"]
    by (auto simp: getCoordinatesFromLocation_def)
  have reverse_url: "getLocationFromCoordinates E la lo = (JNull, [])"
    if "toStr la = Inl e \<or> toStr lo = Inl e" for e
    using that by (cases "toStr la") (auto simp: getLocationFromCoordinates_def)
  have reverse_rejected: "getLocationFromCoordinates E la lo = (JNull, [reverseUrl E x y])"
    if "toStr la = Inr x" "toStr lo = Inr y" "httpGet E (reverseUrl E x y) = Inl r" for x y r
    using that by (simp add: getLocationFromCoordinates_def)
  have reverse_payload: "getLocationFromCoordinates E la lo = (JNull, [reverseUrl E x y])"
    if "toStr la = Inr x" "toStr lo = Inr y" "httpGet E (reverseUrl E x y) = Inr data"
      "\<not> truthy data \<or> data = JArr []
         \<or> (\<exists>e. placeInfo E (\<lambda>p. bindE (toStr la) (\<lambda>s. Inr (parseFloat E s)))
                    (\<lambda>p. bindE (toStr lo) (\<lambda>s. Inr (parseFloat E s))) data = Inl e)"
    for x y data
    using that placeInfo_no_results [of data E "\<lambda>p. bindE (toStr la) (\<lambda>s. Inr (parseFloat E s))"
        "\<lambda>p. bindE (toStr lo) (\<lambda>s. Inr (parseFloat E s))"]
    by (auto simp: getLocationFromCoordinates_def)
  have handler: "\<exists>c'. resp (postWeather E d b) = Json 200 (weatherRecord c' f s)
               \<and> field c' ''enhancedLocation'' = field (JObj kvs) ''enhancedLocation''
               \<and> field c' ''displayName'' = field (JObj kvs) ''displayName''"
    if "fst (enrich E b) = JNull" "presenceCheck b = None"
      "dateCheck E (dateFrom b) (dateTo b) = Inr None"
      "buildWeatherUrl E (location b) (lat b) (lon b) (type b) = Inr u"
      "httpGet E (current u) = Inr (JObj kvs)" "httpGet E (forecast u) = Inr f"
      "searched b = Inr s"
    for u kvs f s
  proof -
    from successful_record [OF that(2-7), of d] that(1) obtain c'
      where c': "augment JNull (JObj kvs) = Inr c'"
        and r: "resp (postWeather E d b) = Json 200 (weatherRecord c' f s)"
      by auto
    from augment_object [of JNull kvs] c'
    have "field c' ''enhancedLocation'' = field (JObj kvs) ''enhancedLocation''"
      "field c' ''displayName'' = field (JObj kvs) ''displayName''"
      by auto
    with r show ?thesis by blast
  qed
  show ?thesis
    using forward_url forward_rejected forward_payload reverse_url reverse_rejected
      reverse_payload handler
    by blast
qed

theorem resolvers_swallow_witness:
  "encodeURIComponent (JStr ''Paris'') = Inr ''Paris''
   \<and> httpGet geoDownEnv (geocodeUrl geoDownEnv ''Paris'') = Inl None
   \<and> getCoordinatesFromLocation geoDownEnv (JStr ''Paris'') = (JNull, [parisGeocodeUrl])
   \<and> status (resp (postWeather geoDownEnv emptyDb paris)) = 200
   \<and> field (field (responseBody (resp (postWeather geoDownEnv emptyDb paris))) ''current'')
        ''enhancedLocation'' = JUndefined"
proof -
  have q: "encodeURIComponent (JStr ''Paris'') = Inr ''Paris''"
    by (simp add: encode_defs)
  have u: "geocodeUrl geoDownEnv ''Paris'' = parisGeocodeUrl"
    by (simp add: url_defs env_defs geoDownEnv_def parisGeocodeUrl_def)
  have r: "httpGet geoDownEnv (geocodeUrl geoDownEnv ''Paris'') = Inl None"
    by (simp add: url_defs env_defs geoDownEnv_def)
  have h: "status (resp (postWeather geoDownEnv emptyDb paris)) = 200"
    "field (field (responseBody (resp (postWeather geoDownEnv emptyDb paris))) ''current'')
        ''enhancedLocation'' = JUndefined"
    by (simp_all add: post_defs body_defs env_defs geoDownEnv_def url_defs encode_defs
          resolver_defs augment_defs payload_defs emptyDb_def field_def)
  from resolvers_swallow [of "JStr ''Paris''" geoDownEnv] q r
  have "getCoordinatesFromLocation geoDownEnv (JStr ''Paris'')
      = (JNull, [geocodeUrl geoDownEnv ''Paris''])"
    by blast
  with q r u h show ?thesis by simp
qed

text \<open>
  C8. A PUT /api/queries/:id whose id matches no row (the body passing validation, the
  URLs built, both upstream requests succeeding, the statement not failing) is answered
  404 with \<open>Query not found\<close>, and the store is what it was.
\<close>

theorem update_unknown_id:
  assumes "\<forall>r \<in> set (rows d). \<not> idMatches E ident (row_id r)"
    and "truthy (location b)"
    and "dateCheck E (dateFrom b) (dateTo b) = Inr None"
    and "buildWeatherUrl E (location b) JUndefined JUndefined JUndefined = Inr u"
    and "httpGet E (current u) = Inr c" and "httpGet E (forecast u) = Inr f"
    and "\<not> storeFails E"
  shows "resp (putQuery E d ident b) = Json 404 (errorBody (JStr ''Query not found''))
     \<and> store (putQuery E d ident b) = d"
  using assms(2-6) dbUpdate_no_match [OF assms(1) assms(7)]
  by (simp add: putQuery_def promiseAll_def)

theorem update_unknown_id_witness:
  "filter (\<lambda>r. idMatches exampleEnv ''7'' (row_id r)) (rows oneRowDb) = []
   \<and> truthy (location paris)
   \<and> dateCheck exampleEnv (dateFrom paris) (dateTo paris) = Inr None
   \<and> buildWeatherUrl exampleEnv (location paris) JUndefined JUndefined JUndefined = Inr parisUrls
   \<and> httpGet exampleEnv (current parisUrls) = Inr parisWeather
   \<and> httpGet exampleEnv (forecast parisUrls) = Inr parisForecast
   \<and> \<not> storeFails exampleEnv
   \<and> resp (putQuery exampleEnv oneRowDb ''7'' paris) = Json 404 (errorBody (JStr ''Query not found''))
   \<and> store (putQuery exampleEnv oneRowDb ''7'' paris) = oneRowDb"
proof -
  have one: "showInt 1 = ''1''"
    by (simp add: showInt_def showNat.simps)
  have h: "\<forall>r \<in> set (rows oneRowDb). \<not> idMatches exampleEnv ''7'' (row_id r)"
    "truthy (location paris)"
    "dateCheck exampleEnv (dateFrom paris) (dateTo paris) = Inr None"
    "buildWeatherUrl exampleEnv (location paris) JUndefined JUndefined JUndefined = Inr parisUrls"
    "httpGet exampleEnv (current parisUrls) = Inr parisWeather"
    "httpGet exampleEnv (forecast parisUrls) = Inr parisForecast"
    "\<not> storeFails exampleEnv"
    by (simp_all add: oneRowDb_def parisRow_def one dateCheck_def buildWeatherUrl_def body_defs
          env_defs url_defs encode_defs parisUrls_def)
  from h(1) have "filter (\<lambda>r. idMatches exampleEnv ''7'' (row_id r)) (rows oneRowDb) = []"
    by simp
  with update_unknown_id [OF h] h show ?thesis by simp
qed

text \<open>
  C9. A body that supplies \<open>lat = 0\<close> and \<open>lon = 0\<close> and no location (and does not
  ask for the zip mode) passes the presence check; no resolver runs; the weather URLs
  query by name for the text \<open>undefined\<close>, and they are the only upstream requests;
  \<open>searchedLocation\<close> is \<open>0,0\<close>, in the record of the response when the two
  requests succeed.
\<close>

theorem zero_coordinates:
  assumes "location b = JUndefined" "lat b = JNum ''0''" "lon b = JNum ''0''"
    and "type b \<noteq> JStr ''zip''" "dateCheck E (dateFrom b) (dateTo b) = Inr None"
  shows "presenceCheck b = None
    \<and> dispatch b = Skip \<and> enrich E b = (JNull, [])
    \<and> buildWeatherUrl E (location b) (lat b) (lon b) (type b) = Inr (byName E ''undefined'')
    \<and> calls (postWeather E d b) = [current (byName E ''undefined''), forecast (byName E ''undefined'')]
    \<and> searched b = Inr (JStr ''0,0'')
    \<and> resp (postWeather E d b) =
        (case promiseAll E (byName E ''undefined'') of
           Inl e \<Rightarrow> catchPost e
         | Inr (c, f) \<Rightarrow>
             (case augment JNull c of
                Inl e \<Rightarrow> catchPost e
              | Inr c' \<Rightarrow> Json 200 (weatherRecord c' f (JStr ''0,0''))))"
  using assms
  by (auto simp: presenceCheck_def dispatch_def enrich_def buildWeatherUrl_def encode_undefined
        searched_def postWeather_def postFetch_def
        split: sum.splits prod.splits)

theorem zero_coordinates_witness:
  "location nullIsland = JUndefined \<and> lat nullIsland = JNum ''0'' \<and> lon nullIsland = JNum ''0''
   \<and> type nullIsland \<noteq> JStr ''zip''
   \<and> dateCheck exampleEnv (dateFrom nullIsland) (dateTo nullIsland) = Inr None
   \<and> presenceCheck nullIsland = None \<and> dispatch nullIsland = Skip
   \<and> calls (postWeather exampleEnv emptyDb nullIsland) = [current undefinedUrls, forecast undefinedUrls]
   \<and> field (responseBody (resp (postWeather exampleEnv emptyDb nullIsland))) ''searchedLocation''
       = JStr ''0,0''"
proof -
  have h: "location nullIsland = JUndefined" "lat nullIsland = JNum ''0''"
    "lon nullIsland = JNum ''0''" "type nullIsland \<noteq> JStr ''zip''"
    "dateCheck exampleEnv (dateFrom nullIsland) (dateTo nullIsland) = Inr None"
    by (simp_all add: body_defs dateCheck_def)
  have u: "byName exampleEnv ''undefined'' = undefinedUrls"
    by (simp add: url_defs env_defs undefinedUrls_def)
  have r: "field (responseBody (resp (postWeather exampleEnv emptyDb nullIsland))) ''searchedLocation''
       = JStr ''0,0''"
    by (simp add: post_defs body_defs env_defs url_defs encode_defs resolver_defs augment_defs
          payload_defs emptyDb_def field_def)
  from zero_coordinates [OF h, of emptyDb] h u r show ?thesis by simp
qed



end
